theory Spec2Isabelle
  imports Complex_Main
begin

section \<open>JavaScript numbers\<close>

text \<open>
  The controller computes with JavaScript numbers, that is IEEE-754 doubles. A finite
  double is a rational, so a finite number is modelled by the rational it denotes and
  every arithmetic operation rounds its exact result to the nearest double (53
  significant bits, ties to even). Overflow and subnormal results are outside the
  range of the quantities of this controller (string lengths, token counts,
  millisecond timeouts) and are not modelled.

  \<open>pow2_below x\<close> is the largest power of two that is at most \<open>x\<close>, for
  positive \<open>x\<close>; the doubles around \<open>x\<close> are the multiples of
  \<open>pow2_below x / 2 ^ 52\<close>.
\<close>

function pow2_below :: "rat \<Rightarrow> rat" where
  "pow2_below x =
     (if x \<le> 0 then 1
      else if 2 \<le> x then 2 * pow2_below (x / 2)
      else if x < 1 then pow2_below (2 * x) / 2
      else 1)"
  by pat_completeness auto
termination
proof (relation "measure (\<lambda>x. nat \<lfloor>x\<rfloor> + 2 * nat \<lceil>1 / x\<rceil>)")
  show "wf (measure (\<lambda>x::rat. nat \<lfloor>x\<rfloor> + 2 * nat \<lceil>1 / x\<rceil>))" by simp
next
  fix x :: rat
  assume a: "\<not> x \<le> 0" "2 \<le> x"
  have c1: "\<lceil>1 / x\<rceil> = 1" using a by (simp add: ceiling_eq_iff)
  have c2: "\<lceil>1 / (x / 2)\<rceil> = 1" using a by (simp add: ceiling_eq_iff)
  have "x / 2 \<le> x - 1" using a by simp
  then have "\<lfloor>x / 2\<rfloor> \<le> \<lfloor>x - 1\<rfloor>" by (rule floor_mono)
  then have f: "\<lfloor>x / 2\<rfloor> < \<lfloor>x\<rfloor>" by simp
  have "0 \<le> \<lfloor>x / 2\<rfloor>" using a by simp
  with f c1 c2
  have "nat \<lfloor>x / 2\<rfloor> + 2 * nat \<lceil>1 / (x / 2)\<rceil> < nat \<lfloor>x\<rfloor> + 2 * nat \<lceil>1 / x\<rceil>"
    by arith
  then show "(x / 2, x) \<in> measure (\<lambda>x. nat \<lfloor>x\<rfloor> + 2 * nat \<lceil>1 / x\<rceil>)"
    by (simp only: in_measure)
next
  fix x :: rat
  assume a: "\<not> x \<le> 0" "\<not> 2 \<le> x" "x < 1"
  have f0: "\<lfloor>x\<rfloor> = 0" using a by (simp add: floor_eq_iff)
  have f1: "\<lfloor>2 * x\<rfloor> \<le> 1" using a by (simp add: floor_le_iff)
  have f1': "0 \<le> \<lfloor>2 * x\<rfloor>" using a by simp
  have y: "1 < 1 / x" using a by simp
  then have c2: "2 \<le> \<lceil>1 / x\<rceil>" by (simp add: le_ceiling_iff)
  have "1 / (2 * x) \<le> of_int \<lceil>1 / x\<rceil> / 2"
    using le_of_int_ceiling [of "1 / x"] by simp
  also have "\<dots> \<le> of_int (\<lceil>1 / x\<rceil> - 1)" using c2 by simp
  finally have c: "\<lceil>1 / (2 * x)\<rceil> \<le> \<lceil>1 / x\<rceil> - 1" by (rule ceiling_le)
  have "(0::rat) \<le> 1 / (2 * x)" using a by simp
  then have "\<lceil>0::rat\<rceil> \<le> \<lceil>1 / (2 * x)\<rceil>" by (rule ceiling_mono)
  then have c0: "0 \<le> \<lceil>1 / (2 * x)\<rceil>" by simp
  from f0 f1 f1' c c0 c2
  have "nat \<lfloor>2 * x\<rfloor> + 2 * nat \<lceil>1 / (2 * x)\<rceil> < nat \<lfloor>x\<rfloor> + 2 * nat \<lceil>1 / x\<rceil>"
    by arith
  then show "(2 * x, x) \<in> measure (\<lambda>x. nat \<lfloor>x\<rfloor> + 2 * nat \<lceil>1 / x\<rceil>)"
    by (simp only: in_measure)
qed

declare pow2_below.simps [simp del]

definition round_half_even :: "rat \<Rightarrow> int" where
  "round_half_even m =
     (let f = \<lfloor>m\<rfloor>; r = m - of_int f
      in if r < 1 / 2 then f else if 1 / 2 < r then f + 1 else if even f then f else f + 1)"

definition round_double :: "rat \<Rightarrow> rat" where
  "round_double x =
     (if x = 0 then 0
      else let ulp = pow2_below \<bar>x\<bar> / 2 ^ 52
           in sgn x * of_int (round_half_even (\<bar>x\<bar> / ulp)) * ulp)"

text \<open>Half the distance of 1 to the next double: the bound on the relative rounding error.\<close>

definition double_eps :: rat where
  "double_eps = 1 / 2 ^ 53"

text \<open>
  A number is a finite double, \<open>NaN\<close> or \<open>+Infinity\<close> (the only non-finite
  values a quotient of two lengths can take).
\<close>

datatype number = NaN | PosInf | Num rat

text \<open>\<open>a / b\<close> on two non-negative integers (both exact as doubles below \<open>2 ^ 53\<close>).\<close>

definition js_div :: "nat \<Rightarrow> nat \<Rightarrow> number" where
  "js_div a b =
     (if b = 0 then (if a = 0 then NaN else PosInf)
      else Num (round_double (of_nat a / of_nat b)))"

text \<open>\<open>x * n\<close> for a number \<open>x\<close> that is not negative and a non-negative integer \<open>n\<close>.\<close>

fun js_mul :: "number \<Rightarrow> nat \<Rightarrow> number" where
  "js_mul NaN n = NaN"
| "js_mul PosInf n = (if n = 0 then NaN else PosInf)"
| "js_mul (Num x) n = Num (round_double (x * of_nat n))"

text \<open>\<open>Math.floor\<close>.\<close>

fun js_floor :: "number \<Rightarrow> number" where
  "js_floor NaN = NaN"
| "js_floor PosInf = PosInf"
| "js_floor (Num x) = Num (of_int \<lfloor>x\<rfloor>)"

text \<open>The double written \<open>0.7\<close> in the source.\<close>

definition double_0_7 :: rat where
  "double_0_7 = round_double (7 / 10)"

section \<open>Strings\<close>

text \<open>\<open>s.includes(p)\<close>.\<close>

fun includes_str :: "string \<Rightarrow> string \<Rightarrow> bool" where
  "includes_str [] p = (p = [])"
| "includes_str (c # cs) p = (take (length p) (c # cs) = p \<or> includes_str cs p)"

text \<open>\<open>s.replace(p, r)\<close> with a string pattern: the first occurrence only.\<close>

fun replace :: "string \<Rightarrow> string \<Rightarrow> string \<Rightarrow> string" where
  "replace [] p r = (if p = [] then r else [])"
| "replace (c # cs) p r =
     (if take (length p) (c # cs) = p then r @ drop (length p) (c # cs)
      else c # replace cs p r)"

text \<open>\<open>xs.join(sep)\<close>.\<close>

fun join :: "string list \<Rightarrow> string \<Rightarrow> string" where
  "join [] sep = []"
| "join [x] sep = x"
| "join (x # y # ys) sep = x @ sep @ join (y # ys) sep"

text \<open>Truthiness of an optional string: present and not empty.\<close>

fun truthy :: "string option \<Rightarrow> bool" where
  "truthy None = False"
| "truthy (Some s) = (s \<noteq> [])"

section \<open>Data model\<close>

text \<open>
  The types of \<open>./types\<close> as the controller uses them. A \<open>MapDocument\<close> is a
  candidate link produced by discovery.
\<close>

record MapDocument =
  url :: string
  title :: string
  description :: string

text \<open>One entry of the list \<open>performRanking\<close> returns.\<close>

record scored =
  link :: string
  linkWithContext :: string
  score :: rat
  originalIndex :: nat

datatype status = Mapped | Scraped | Error

text \<open>
  The two warnings the controller writes: the template string
  \<open>Relevance score ${score} below threshold\<close>, kept with its score, and the
  string \<open>Excluded due to ranking limit\<close>.
\<close>

datatype trace_warning = Below_threshold rat | Ranking_limit

text \<open>
  The time stamps are wall-clock readings; the model records which of them have been
  written (\<open>discoveredAt\<close> is written when the trace is created).
\<close>

record timing =
  scrapedAt :: bool
  completedAt :: bool

record contentStats =
  rawContentLength :: nat
  processedContentLength :: nat
  tokensUsed :: number

record URLTrace =
  url :: string
  status :: status
  timing :: timing
  relevanceScore :: "rat option"
  usedInCompletion :: "bool option"
  warning :: "trace_warning option"
  error :: "string option"
  contentStats :: "contentStats option"

text \<open>A fetched document: its markdown and \<open>metadata.sourceURL\<close>, both optional.\<close>

record Document =
  markdown :: "string option"
  sourceURL :: "string option"

text \<open>The parsed request body.\<close>

record ExtractRequest =
  urls :: "string list"
  prompt :: "string option"
  systemPrompt :: "string option"
  allowExternalLinks :: bool
  timeout :: "nat option"
  origin :: "string option"

text \<open>What \<open>getMapResults\<close> resolves to.\<close>

record MapResults =
  mapResults :: "MapDocument list"
  links :: "string list"

text \<open>
  What \<open>generateOpenAICompletions\<close> resolves to (\<open>extract\<close> and \<open>warning\<close> carry a
  suffix or prefix here).
\<close>

record completions =
  extract_data :: "string option"
  completion_warning :: "string option"
  numTokens :: "nat option"

text \<open>
  An error the batch wait is rejected with: the controller reads its \<open>status\<close> and
  \<open>error\<close> fields.
\<close>

record rejection =
  rejection_status :: "nat option"
  rejection_error :: "string option"

text \<open>
  The JSON body the controller answers with, together with its HTTP status (the fields
  \<open>error\<close> and \<open>warning\<close> carry a prefix here, as \<open>URLTrace\<close> has fields
  of these names).
\<close>

record ExtractResponse =
  http_status :: "nat option"
  success :: bool
  response_error :: "string option"
  data :: "string option"
  response_warning :: "string option"
  urlTrace :: "URLTrace list"

text \<open>
  The controller either answers, or its promise is rejected with an error it does not
  catch (kept with its message).
\<close>

datatype outcome = Responded ExtractResponse | Thrown string

text \<open>
  The calls the controller makes on the queue, in the order it makes them. A job id is
  a fresh UUID in the source; the model names a job by the position of its URL in
  \<open>links\<close>.
\<close>

datatype queue_call = AddScrapeJob nat string | WaitForJob nat nat | Remove nat

text \<open>
  The imported functions, which are not part of the controller, are parameters. A
  function whose promise may be rejected (or that may throw) returns a sum: \<open>Inl\<close>
  carries the message of the error. \<open>generateBasicCompletion\<close> may also resolve to
  \<open>null\<close>, which is \<open>Inr None\<close>.
\<close>

record collaborators =
  isUrlBlocked :: "string \<Rightarrow> bool"
  buildRefrasedPrompt :: "string \<Rightarrow> string \<Rightarrow> string"
  generateBasicCompletion :: "string \<Rightarrow> string + string option"
  getMapResults :: "string \<Rightarrow> string option \<Rightarrow> ExtractRequest \<Rightarrow> string + MapResults"
  removeDuplicateUrls :: "string list \<Rightarrow> string + string list"
  performRanking :: "string list \<Rightarrow> string list \<Rightarrow> string \<Rightarrow> string + scored list"
  getJobPriority :: "nat \<Rightarrow> rejection + nat"
  addScrapeJob :: "string \<Rightarrow> string \<Rightarrow> nat \<Rightarrow> nat \<Rightarrow> string + unit"
  waitForJob :: "nat \<Rightarrow> nat \<Rightarrow> string + Document"
  queue_remove :: "nat \<Rightarrow> string + unit"
  buildDocument :: "Document \<Rightarrow> string"
  generateOpenAICompletions :: "string \<Rightarrow> string option \<Rightarrow> string \<Rightarrow> string + completions"

definition MAX_EXTRACT_LIMIT :: nat where "MAX_EXTRACT_LIMIT = 100"
definition MAX_RANKING_LIMIT :: nat where "MAX_RANKING_LIMIT = 10"
definition INITIAL_SCORE_THRESHOLD :: rat where "INITIAL_SCORE_THRESHOLD = 3 / 4"
definition FALLBACK_SCORE_THRESHOLD :: rat where "FALLBACK_SCORE_THRESHOLD = 1 / 2"
definition MIN_REQUIRED_LINKS :: nat where "MIN_REQUIRED_LINKS = 1"

section \<open>The trace ledger\<close>

text \<open>
  \<open>urlTraces\<close> is an array of objects that the tasks of one request mutate in place.
  \<open>const trace = urlTraces.find(p); if (trace) { ... }\<close> changes the first trace that
  satisfies \<open>p\<close>, and nothing when there is none.
\<close>

fun update_first :: "('a \<Rightarrow> bool) \<Rightarrow> ('a \<Rightarrow> 'a) \<Rightarrow> 'a list \<Rightarrow> 'a list" where
  "update_first p f [] = []"
| "update_first p f (t # ts) = (if p t then f t # ts else t # update_first p f ts)"

text \<open>The trace an input URL starts with (lines 64-70).\<close>

definition new_trace :: "string \<Rightarrow> URLTrace" where
  "new_trace u =
     \<lparr>url = u, status = Mapped, timing = \<lparr>scrapedAt = False, completedAt = False\<rparr>,
      relevanceScore = None, usedInCompletion = None, warning = None, error = None,
      contentStats = None\<rparr>"

text \<open>The trace of a discovered URL (lines 110-117).\<close>

definition discovered_trace :: "string \<Rightarrow> URLTrace" where
  "discovered_trace u = (new_trace u)\<lparr>usedInCompletion := Some False\<rparr>"

text \<open>\<open>uniqueUrls.forEach\<close> of lines 108-119: a URL with no trace yet gets one.\<close>

fun track_discovered :: "URLTrace list \<Rightarrow> string list \<Rightarrow> URLTrace list" where
  "track_discovered ts [] = ts"
| "track_discovered ts (u # us) =
     track_discovered
       (if list_ex (\<lambda>t. URLTrace.url t = u) ts then ts else ts @ [discovered_trace u]) us"

section \<open>Relevance filter\<close>

text \<open>\<open>filterAndProcessLinks\<close> (lines 407-424).\<close>

definition filterAndProcessLinks ::
  "collaborators \<Rightarrow> MapDocument list \<Rightarrow> scored list \<Rightarrow> rat \<Rightarrow> MapDocument list" where
  "filterAndProcessLinks c mappedLinks linksAndScores threshold =
     filter (\<lambda>x. \<not> isUrlBlocked c (MapDocument.url x))
       (List.map_filter (\<lambda>x. find (\<lambda>l. MapDocument.url l = link x) mappedLinks)
          (filter (\<lambda>x. threshold < score x) linksAndScores))"

text \<open>
  \<open>linksAndScores.sort((a, b) => b.score - a.score)\<close>: a stable sort, highest score
  first (insertion from the right keeps entries of equal score in their order).
\<close>

definition sort_by_score :: "scored list \<Rightarrow> scored list" where
  "sort_by_score linksAndScores = sort_key (\<lambda>x. - score x) linksAndScores"

text \<open>
  The cascade of lines 156-190. It returns \<open>filteredLinks\<close> and \<open>linksAndScores\<close>,
  which the last stage has sorted in place.
\<close>

definition cascade ::
  "collaborators \<Rightarrow> MapDocument list \<Rightarrow> scored list \<Rightarrow> MapDocument list \<times> scored list" where
  "cascade c mappedLinks linksAndScores =
     (let filteredLinks = filterAndProcessLinks c mappedLinks linksAndScores INITIAL_SCORE_THRESHOLD
      in if length filteredLinks < MIN_REQUIRED_LINKS then
           (let filteredLinks' =
                  filterAndProcessLinks c mappedLinks linksAndScores FALLBACK_SCORE_THRESHOLD
            in if length filteredLinks' = 0 then
                 (let sorted = sort_by_score linksAndScores
                  in (filter (\<lambda>x. \<not> isUrlBlocked c (MapDocument.url x))
                        (List.map_filter (\<lambda>x. find (\<lambda>l. MapDocument.url l = link x) mappedLinks)
                           (take MIN_REQUIRED_LINKS sorted)),
                      sorted))
               else (filteredLinks', linksAndScores))
         else (filteredLinks, linksAndScores))"

text \<open>The update of one scored URL's trace (lines 193-203).\<close>

definition score_trace :: "MapDocument list \<Rightarrow> scored \<Rightarrow> URLTrace \<Rightarrow> URLTrace" where
  "score_trace filteredLinks s t =
     (let t' = t\<lparr>relevanceScore := Some (score s)\<rparr>
      in if \<not> list_ex (\<lambda>l. MapDocument.url l = link s) filteredLinks
         then t'\<lparr>warning := Some (Below_threshold (score s)), usedInCompletion := Some False\<rparr>
         else t')"

text \<open>
  Lines 156-223: the cascade, the trace updates and the cut to
  \<open>MAX_RANKING_LIMIT\<close>. It returns the ledger and the new \<open>mappedLinks\<close>.
\<close>

definition rank_and_filter ::
  "collaborators \<Rightarrow> URLTrace list \<Rightarrow> MapDocument list \<Rightarrow> scored list
     \<Rightarrow> URLTrace list \<times> MapDocument list" where
  "rank_and_filter c ts mappedLinks linksAndScores =
     (let (filteredLinks, scores) = cascade c mappedLinks linksAndScores;
          ts1 = fold (\<lambda>s. update_first (\<lambda>t. URLTrace.url t = link s) (score_trace filteredLinks s))
                  scores ts;
          kept = take MAX_RANKING_LIMIT filteredLinks;
          ts2 = fold (\<lambda>l. update_first (\<lambda>t. URLTrace.url t = MapDocument.url l)
                          (\<lambda>t. t\<lparr>usedInCompletion := Some True\<rparr>))
                  kept ts1;
          ts3 = fold (\<lambda>l. update_first (\<lambda>t. URLTrace.url t = MapDocument.url l)
                          (\<lambda>t. t\<lparr>warning := Some Ranking_limit, usedInCompletion := Some False\<rparr>))
                  (drop MAX_RANKING_LIMIT filteredLinks) ts2
      in (ts3, kept))"

section \<open>URL resolution\<close>

text \<open>Lines 121-135: the candidate list of one input URL.\<close>

definition merge_links :: "MapDocument list \<Rightarrow> string list \<Rightarrow> string \<Rightarrow> MapDocument list" where
  "merge_links mapped uniqueUrls baseUrl =
     (let newUrls = filter (\<lambda>u. u \<notin> set (map MapDocument.url mapped)) uniqueUrls;
          merged = mapped @ map (\<lambda>u. \<lparr>MapDocument.url = u, title = [], description = []\<rparr>) newUrls;
          merged' = (if length merged = 0
                     then [\<lparr>MapDocument.url = baseUrl, title = [], description = []\<rparr>]
                     else merged)
      in take MAX_EXTRACT_LIMIT merged')"

text \<open>Lines 137-140.\<close>

definition rerank_text :: "MapDocument \<Rightarrow> string" where
  "rerank_text x =
     ''url: '' @ MapDocument.url x @ '', title: '' @ title x @ '', description: '' @ description x"

text \<open>Lines 143-148.\<close>

definition searchQuery :: "string option \<Rightarrow> bool \<Rightarrow> string \<Rightarrow> string" where
  "searchQuery p allow urlWithoutWww =
     (case p of
        None \<Rightarrow> ''site:'' @ urlWithoutWww
      | Some s \<Rightarrow>
          if s = [] then ''site:'' @ urlWithoutWww
          else if allow then s @ '' '' @ urlWithoutWww
          else s @ '' site:'' @ urlWithoutWww)"

text \<open>
  The body of the \<open>try\<close> block (lines 88-225). It returns the ledger as the body left
  it, and either the message of the error thrown or the URLs returned.
\<close>

definition discover ::
  "collaborators \<Rightarrow> ExtractRequest \<Rightarrow> string \<Rightarrow> string option \<Rightarrow> URLTrace list
     \<Rightarrow> URLTrace list \<times> (string + string list)" where
  "discover c req u rephrasedPrompt ts =
     (let baseUrl = replace u ''/*'' [];
          urlWithoutWww = replace baseUrl ''www.'' []
      in case getMapResults c baseUrl rephrasedPrompt req of
           Inl e \<Rightarrow> (ts, Inl e)
         | Inr mr \<Rightarrow>
             (case removeDuplicateUrls c (map MapDocument.url (mapResults mr) @ links mr) of
                Inl e \<Rightarrow> (ts, Inl e)
              | Inr uniqueUrls \<Rightarrow>
                  (let ts1 = track_discovered ts uniqueUrls;
                       mappedLinks = merge_links (mapResults mr) uniqueUrls baseUrl
                   in if truthy (prompt req) then
                        (case performRanking c (map rerank_text mappedLinks)
                                (map MapDocument.url mappedLinks)
                                (searchQuery (prompt req) (allowExternalLinks req) urlWithoutWww) of
                           Inl e \<Rightarrow> (ts1, Inl e)
                         | Inr linksAndScores \<Rightarrow>
                             (let (ts2, kept) = rank_and_filter c ts1 mappedLinks linksAndScores
                              in (ts2, Inr (map MapDocument.url kept))))
                      else (ts1, Inr (map MapDocument.url mappedLinks)))))"

text \<open>
  Lines 79-85, before the \<open>try\<close>: the rephrased prompt, or the message of the error
  \<open>generateBasicCompletion\<close> is rejected with.
\<close>

definition rephrase :: "collaborators \<Rightarrow> ExtractRequest \<Rightarrow> string \<Rightarrow> string + string option" where
  "rephrase c req baseUrl =
     (case prompt req of
        None \<Rightarrow> Inr None
      | Some p \<Rightarrow>
          if p = [] then Inr (Some p)
          else (case generateBasicCompletion c (buildRefrasedPrompt c p baseUrl) of
                  Inl e \<Rightarrow> Inl e
                | Inr None \<Rightarrow> Inr (Some p)
                | Inr (Some r) \<Rightarrow> Inr (Some r)))"

text \<open>The \<open>catch\<close> of lines 226-231, on the task's own trace.\<close>

definition mark_failed :: "string \<Rightarrow> URLTrace \<Rightarrow> URLTrace" where
  "mark_failed e t = t\<lparr>status := Error, error := Some e, usedInCompletion := Some False\<rparr>"

text \<open>
  The task of a pattern URL after its trace is pushed. The trace of input \<open>i\<close> is the
  \<open>i\<close>-th of the ledger: the tasks push their traces before any of them goes on.
  \<open>Inl\<close> is a rejected task.
\<close>

definition resolve_pattern ::
  "collaborators \<Rightarrow> ExtractRequest \<Rightarrow> nat \<Rightarrow> string \<Rightarrow> URLTrace list
     \<Rightarrow> string + (URLTrace list \<times> string list)" where
  "resolve_pattern c req i u ts =
     (case rephrase c req (replace u ''/*'' []) of
        Inl e \<Rightarrow> Inl e
      | Inr rephrasedPrompt \<Rightarrow>
          Inr (case discover c req u rephrasedPrompt ts of
                 (ts', Inl e) \<Rightarrow> (ts'[i := mark_failed e (ts' ! i)], [])
               | (ts', Inr found) \<Rightarrow> (ts', found)))"

text \<open>Line 73.\<close>

definition is_pattern :: "ExtractRequest \<Rightarrow> string \<Rightarrow> bool" where
  "is_pattern req u = (includes_str u ''/*'' \<or> allowExternalLinks req)"

text \<open>Lines 233-242: a direct URL, on its own trace.\<close>

definition resolve_direct :: "collaborators \<Rightarrow> string \<Rightarrow> URLTrace \<Rightarrow> URLTrace \<times> string list" where
  "resolve_direct c u t =
     (if \<not> isUrlBlocked c u then (t\<lparr>usedInCompletion := Some True\<rparr>, [u])
      else (t\<lparr>status := Error, error := Some ''URL is blocked'', usedInCompletion := Some False\<rparr>,
            []))"

text \<open>
  \<open>req.body.urls.map(async (url) => ...)\<close> runs every task up to its first
  \<open>await\<close>: each pushes its trace, and a direct URL, which awaits nothing, is
  finished there.
\<close>

definition start_traces :: "collaborators \<Rightarrow> ExtractRequest \<Rightarrow> URLTrace list" where
  "start_traces c req =
     map (\<lambda>u. if is_pattern req u then new_trace u else fst (resolve_direct c u (new_trace u)))
       (urls req)"

text \<open>
  The tasks of the pattern URLs then go on. They interleave at their \<open>await\<close>s in an
  order the source does not fix; the model runs them one after the other in the order
  of the input, which is one of the orders the program can take. A rejected task
  rejects \<open>Promise.all\<close>. The result holds \<open>processedUrls\<close>.
\<close>

fun resolve_rest ::
  "collaborators \<Rightarrow> ExtractRequest \<Rightarrow> (nat \<times> string) list \<Rightarrow> URLTrace list
     \<Rightarrow> string + (URLTrace list \<times> string list list)" where
  "resolve_rest c req [] ts = Inr (ts, [])"
| "resolve_rest c req ((i, u) # rest) ts =
     (if is_pattern req u then
        (case resolve_pattern c req i u ts of
           Inl e \<Rightarrow> Inl e
         | Inr (ts', found) \<Rightarrow>
             (case resolve_rest c req rest ts' of
                Inl e \<Rightarrow> Inl e
              | Inr (ts'', processed) \<Rightarrow> Inr (ts'', found # processed)))
      else
        (case resolve_rest c req rest ts of
           Inl e \<Rightarrow> Inl e
         | Inr (ts'', processed) \<Rightarrow>
             Inr (ts'', snd (resolve_direct c u (new_trace u)) # processed)))"

definition resolve_all ::
  "collaborators \<Rightarrow> ExtractRequest \<Rightarrow> string + (URLTrace list \<times> string list list)" where
  "resolve_all c req = resolve_rest c req (enumerate 0 (urls req)) (start_traces c req)"

section \<open>Fetch\<close>

text \<open>
  Line 268: \<open>Math.floor((req.body.timeout || 40000) * 0.7) || 30000\<close>. The request's
  timeout is a non-negative integer of milliseconds, exact as a double.
\<close>

definition effective_timeout :: "nat option \<Rightarrow> nat" where
  "effective_timeout t =
     (let t' = (case t of None \<Rightarrow> 40000 | Some n \<Rightarrow> if n = 0 then 40000 else n);
          v = \<lfloor>round_double (of_nat t' * double_0_7)\<rfloor>
      in if v = 0 then 30000 else nat v)"

text \<open>Lines 261-265, for every link before any job is awaited.\<close>

definition start_scrapes :: "URLTrace list \<Rightarrow> string list \<Rightarrow> URLTrace list" where
  "start_scrapes ts found =
     fold (\<lambda>u. update_first (\<lambda>t. URLTrace.url t = u)
                 (\<lambda>t. t\<lparr>status := Scraped, timing := (timing t)\<lparr>scrapedAt := True\<rparr>\<rparr>))
       found ts"

text \<open>\<open>doc.markdown?.length || 0\<close>.\<close>

definition markdown_length :: "Document \<Rightarrow> nat" where
  "markdown_length d = (case markdown d of None \<Rightarrow> 0 | Some m \<Rightarrow> length m)"

text \<open>Line 267: \<open>req.body.origin || "api"\<close>.\<close>

definition request_origin :: "ExtractRequest \<Rightarrow> string" where
  "request_origin req =
     (case origin req of None \<Rightarrow> ''api'' | Some s \<Rightarrow> if s = [] then ''api'' else s)"

text \<open>
  Lines 277-317: the \<open>try\<close> and \<open>catch\<close> of one link, for job \<open>j\<close> with priority
  \<open>p\<close>. It returns the ledger, the calls made on the queue and the document, if any.
\<close>

definition scrape_job ::
  "collaborators \<Rightarrow> ExtractRequest \<Rightarrow> nat \<Rightarrow> string \<Rightarrow> nat \<Rightarrow> URLTrace list
     \<Rightarrow> URLTrace list \<times> queue_call list \<times> Document option" where
  "scrape_job c req j u p ts =
     (let tmo = effective_timeout (timeout req);
          org = request_origin req;
          failed = (\<lambda>e. update_first (\<lambda>t. URLTrace.url t = u)
                           (\<lambda>t. t\<lparr>status := Error, error := Some e\<rparr>) ts)
      in case addScrapeJob c u org j p of
           Inl e \<Rightarrow> (failed e, [AddScrapeJob j u], None)
         | Inr _ \<Rightarrow>
             (case waitForJob c j tmo of
                Inl e \<Rightarrow> (failed e, [AddScrapeJob j u, WaitForJob j tmo], None)
              | Inr doc \<Rightarrow>
                  (case queue_remove c j of
                     Inl e \<Rightarrow> (failed e, [AddScrapeJob j u, WaitForJob j tmo, Remove j], None)
                   | Inr _ \<Rightarrow>
                       (update_first (\<lambda>t. URLTrace.url t = u)
                          (\<lambda>t. t\<lparr>timing := (timing t)\<lparr>completedAt := True\<rparr>,
                                  contentStats :=
                                    Some \<lparr>rawContentLength = markdown_length doc,
                                          processedContentLength = markdown_length doc,
                                          tokensUsed = Num 0\<rparr>\<rparr>) ts,
                        [AddScrapeJob j u, WaitForJob j tmo, Remove j], Some doc))))"

text \<open>
  The scrape tasks, one after the other in the order of \<open>links\<close> (one of the orders
  the program can take). \<open>getJobPriority\<close> is awaited outside the \<open>try\<close>: its
  rejection rejects \<open>Promise.all\<close> (\<open>Inl\<close>, with the ledger and the calls made
  until then). Its argument is the job the call is made for: the source passes the
  plan, the team and the base priority 10 in every call, and the answer depends on the
  state of the queue.
\<close>

fun scrape_rest ::
  "collaborators \<Rightarrow> ExtractRequest \<Rightarrow> (nat \<times> string) list \<Rightarrow> URLTrace list \<Rightarrow> queue_call list
     \<Rightarrow> (rejection \<times> URLTrace list \<times> queue_call list)
         + (URLTrace list \<times> queue_call list \<times> Document option list)" where
  "scrape_rest c req [] ts calls = Inr (ts, calls, [])"
| "scrape_rest c req ((j, u) # rest) ts calls =
     (case getJobPriority c j of
        Inl r \<Rightarrow> Inl (r, ts, calls)
      | Inr p \<Rightarrow>
          (case scrape_job c req j u p ts of
             (ts', made, d) \<Rightarrow>
               (case scrape_rest c req rest ts' (calls @ made) of
                  Inl x \<Rightarrow> Inl x
                | Inr (ts'', calls'', ds) \<Rightarrow> Inr (ts'', calls'', d # ds))))"

section \<open>Extraction and the response\<close>

text \<open>The system prompt of lines 335-338.\<close>

definition system_prompt :: "ExtractRequest \<Rightarrow> string list \<Rightarrow> string" where
  "system_prompt req found =
     (case systemPrompt req of
        None \<Rightarrow> []
      | Some s \<Rightarrow> if s = [] then [] else s @ [CHR 0x0A])
     @ ''Always prioritize using the provided content to answer the question. ''
     @ ''Do not make up an answer. Be concise and follow the schema always if provided. ''
     @ ''Here are the urls the user provided of which he wants to extract information from: ''
     @ join found '', ''"

text \<open>Lines 355-357: \<open>Math.floor((length / totalLength) * numTokens)\<close>.\<close>

definition token_share :: "nat \<Rightarrow> nat \<Rightarrow> nat \<Rightarrow> number" where
  "token_share n totalLength len = js_floor (js_mul (js_div len totalLength) n)"

text \<open>
  Lines 352-359, for one document: the first trace of the document's \<open>sourceURL\<close>,
  if it has \<open>contentStats\<close>, gets the document's share.
\<close>

definition attribute_doc :: "nat \<Rightarrow> nat \<Rightarrow> Document \<Rightarrow> URLTrace list \<Rightarrow> URLTrace list" where
  "attribute_doc n totalLength d ts =
     (case sourceURL d of
        None \<Rightarrow> ts
      | Some s \<Rightarrow>
          if s = [] then ts
          else update_first (\<lambda>t. URLTrace.url t = s)
                 (\<lambda>t. case contentStats t of
                         None \<Rightarrow> t
                       | Some cs \<Rightarrow>
                           t\<lparr>contentStats :=
                                Some (cs\<lparr>tokensUsed :=
                                           token_share n totalLength (markdown_length d)\<rparr>)\<rparr>)
                 ts)"

text \<open>Lines 350-360.\<close>

definition attribute_tokens :: "nat \<Rightarrow> Document list \<Rightarrow> URLTrace list \<Rightarrow> URLTrace list" where
  "attribute_tokens n docs ts =
     (let totalLength = sum_list (map markdown_length docs)
      in fold (attribute_doc n totalLength) docs ts)"

text \<open>
  \<open>extractController\<close> (lines 48-398), on the parsed request. It returns the outcome
  and the calls made on the queue until then. The billing and the job log, which the
  controller starts without awaiting them, are left out.
\<close>

definition extractController ::
  "collaborators \<Rightarrow> ExtractRequest \<Rightarrow> outcome \<times> queue_call list" where
  "extractController c req =
     (case resolve_all c req of
        Inl e \<Rightarrow> (Thrown e, [])
      | Inr (ts, processedUrls) \<Rightarrow>
          (let found = filter (\<lambda>u. u \<noteq> []) (concat processedUrls)
           in if length found = 0 then
                (Responded
                   \<lparr>http_status = Some 400, success = False,
                    response_error =
                      Some (''No valid URLs found to scrape. Try adjusting your search ''
                            @ ''criteria or including more URLs.''),
                    data = None, response_warning = None, urlTrace = ts\<rparr>,
                 [])
              else
                (case scrape_rest c req (enumerate 0 found) (start_scrapes ts found) [] of
                   Inl (r, ts', calls) \<Rightarrow>
                     (Responded
                        \<lparr>http_status = rejection_status r, success = False,
                         response_error = rejection_error r,
                         data = None, response_warning = None, urlTrace = ts'\<rparr>,
                      calls)
                 | Inr (ts', calls, results) \<Rightarrow>
                     (let docs = List.map_filter (\<lambda>d. d) results
                      in case generateOpenAICompletions c (system_prompt req found) (prompt req)
                                (join (map (buildDocument c) docs) [CHR 0x0A]) of
                           Inl e \<Rightarrow> (Thrown e, calls)
                         | Inr result \<Rightarrow>
                             (let ts'' =
                                    (case numTokens result of
                                       None \<Rightarrow> ts'
                                     | Some n \<Rightarrow> if n = 0 then ts' else attribute_tokens n docs ts')
                              in (Responded
                                    \<lparr>http_status = Some 200, success = True,
                                     response_error = None,
                                     data = Some (case extract_data result of
                                                    None \<Rightarrow> ''{}'' | Some d \<Rightarrow> d),
                                     response_warning = completion_warning result,
                                     urlTrace = ts''\<rparr>,
                                  calls))))))"

section \<open>Example inputs\<close>

text \<open>
  Collaborators that block nothing, discover nothing and always succeed, and a request
  for one direct URL. The examples below vary them.
\<close>

definition example_collaborators :: collaborators where
  "example_collaborators =
     \<lparr>isUrlBlocked = (\<lambda>u. False),
      buildRefrasedPrompt = (\<lambda>p u. p),
      generateBasicCompletion = (\<lambda>p. Inr None),
      getMapResults = (\<lambda>u s r. Inr \<lparr>mapResults = [], links = []\<rparr>),
      removeDuplicateUrls = (\<lambda>us. Inr (remdups us)),
      performRanking = (\<lambda>ctx us q. Inr []),
      getJobPriority = (\<lambda>j. Inr 10),
      addScrapeJob = (\<lambda>u org j p. Inr ()),
      waitForJob = (\<lambda>j tmo. Inr \<lparr>markdown = Some ''text'', sourceURL = None\<rparr>),
      queue_remove = (\<lambda>j. Inr ()),
      buildDocument = (\<lambda>d. case markdown d of None \<Rightarrow> [] | Some m \<Rightarrow> m),
      generateOpenAICompletions =
        (\<lambda>sp p ctx. Inr \<lparr>extract_data = None, completion_warning = None, numTokens = None\<rparr>)\<rparr>"

definition example_request :: ExtractRequest where
  "example_request =
     \<lparr>urls = [''https://a.com''], prompt = None, systemPrompt = None,
      allowExternalLinks = False, timeout = None, origin = None\<rparr>"



text \<open>A candidate link and a scored link, with the other fields empty.\<close>

definition candidate :: "string \<Rightarrow> MapDocument" where
  "candidate u = \<lparr>MapDocument.url = u, title = [], description = []\<rparr>"

definition scored_link :: "string \<Rightarrow> rat \<Rightarrow> scored" where
  "scored_link u s = \<lparr>link = u, linkWithContext = [], score = s, originalIndex = 0\<rparr>"

section \<open>The acceptance policy in words\<close>

text \<open>
  The cascade as claim C1 words it, on the scored URLs: all with a score above 0.75; if
  there is none, all with a score above 0.5; if there is none, the single highest-scoring
  one, unless it is blocked.
\<close>

definition claimed_cascade :: "(string \<Rightarrow> bool) \<Rightarrow> scored list \<Rightarrow> string list" where
  "claimed_cascade blocked linksAndScores =
     (let high = map link (filter (\<lambda>x. 3 / 4 < score x) linksAndScores)
      in if length high < 1 then
           (let fair = map link (filter (\<lambda>x. 1 / 2 < score x) linksAndScores)
            in if length fair = 0 then
                 filter (\<lambda>u. \<not> blocked u) (map link (take 1 (sort_by_score linksAndScores)))
               else fair)
         else high)"

text \<open>
  The policy of the code in the same words: at every stage a scored URL counts only if it
  is the URL of a candidate and is not blocked.
\<close>

definition accepted_above ::
  "(string \<Rightarrow> bool) \<Rightarrow> string list \<Rightarrow> scored list \<Rightarrow> rat \<Rightarrow> string list" where
  "accepted_above blocked candidates linksAndScores threshold =
     filter (\<lambda>u. u \<in> set candidates \<and> \<not> blocked u)
       (map link (filter (\<lambda>x. threshold < score x) linksAndScores))"

definition amended_cascade ::
  "(string \<Rightarrow> bool) \<Rightarrow> string list \<Rightarrow> scored list \<Rightarrow> string list" where
  "amended_cascade blocked candidates linksAndScores =
     (let high = accepted_above blocked candidates linksAndScores (3 / 4)
      in if high = [] then
           (let fair = accepted_above blocked candidates linksAndScores (1 / 2)
            in if fair = [] then
                 filter (\<lambda>u. u \<in> set candidates \<and> \<not> blocked u)
                   (map link (take 1 (sort_by_score linksAndScores)))
               else fair)
         else high)"

section \<open>Evaluation lemmas\<close>

lemma floor_40000: "\<lfloor>round_double (40000 * double_0_7)\<rfloor> = 28000"
  by code_simp

lemma effective_timeout_None: "effective_timeout None = 28000"
  by (simp add: effective_timeout_def floor_40000)

lemmas controller_defs =
  extractController_def resolve_all_def start_traces_def is_pattern_def resolve_direct_def
  resolve_pattern_def rephrase_def discover_def merge_links_def new_trace_def
  discovered_trace_def mark_failed_def start_scrapes_def scrape_job_def request_origin_def
  system_prompt_def markdown_length_def List.map_filter_def enumerate_eq_zip
  MAX_EXTRACT_LIMIT_def example_collaborators_def example_request_def

section \<open>The terminal guard\<close>

text \<open>
  Claim C2. If no URL survives resolution (the flattened list of resolved URLs, without
  the empty strings, is empty), the controller answers with status 400 and
  \<open>success = false\<close>, the answer carries the ledger as resolution left it, and no
  call is made on the queue.
\<close>

theorem no_links_short_circuit:
  assumes "resolve_all c req = Inr (ts, processedUrls)"
    and "filter (\<lambda>u. u \<noteq> []) (concat processedUrls) = []"
  shows "\<exists>r. extractController c req = (Responded r, []) \<and> http_status r = Some 400
           \<and> \<not> success r \<and> urlTrace r = ts"
  using assms by (simp add: extractController_def)

text \<open>The one URL of the request is blocked: nothing is resolved.\<close>

theorem no_links_short_circuit_witness:
  "resolve_all (example_collaborators\<lparr>isUrlBlocked := (\<lambda>u. True)\<rparr>) example_request =
     Inr ([\<lparr>url = ''https://a.com'', status = Error,
            timing = \<lparr>scrapedAt = False, completedAt = False\<rparr>,
            relevanceScore = None, usedInCompletion = Some False, warning = None,
            error = Some ''URL is blocked'', contentStats = None\<rparr>], [[]])
   \<and> (\<exists>r. extractController (example_collaborators\<lparr>isUrlBlocked := (\<lambda>u. True)\<rparr>)
              example_request = (Responded r, [])
          \<and> http_status r = Some 400 \<and> \<not> success r
          \<and> urlTrace r =
              [\<lparr>url = ''https://a.com'', status = Error,
                timing = \<lparr>scrapedAt = False, completedAt = False\<rparr>,
                relevanceScore = None, usedInCompletion = Some False, warning = None,
                error = Some ''URL is blocked'', contentStats = None\<rparr>])"
proof -
  let ?c = "example_collaborators\<lparr>isUrlBlocked := (\<lambda>u. True)\<rparr>"
  let ?t = "\<lparr>url = ''https://a.com'', status = Error,
            timing = \<lparr>scrapedAt = False, completedAt = False\<rparr>,
            relevanceScore = None, usedInCompletion = Some False, warning = None,
            error = Some ''URL is blocked'', contentStats = None\<rparr>"
  have h1: "resolve_all ?c example_request = Inr ([?t], [[]])"
    by (simp add: controller_defs)
  have h2: "filter (\<lambda>u. u \<noteq> []) (concat [[]::string list]) = []" by simp
  from no_links_short_circuit [OF h1 h2] h1 show ?thesis by simp
qed

section \<open>Failures during resolution\<close>

text \<open>
  An error thrown inside the \<open>try\<close> block is caught for the one input URL: here the
  rejection of \<open>getMapResults\<close> marks the trace of that URL and the URL resolves to
  nothing.
\<close>

lemma discovery_failure_is_caught:
  assumes "rephrase c req (replace u ''/*'' []) = Inr p"
    and "getMapResults c (replace u ''/*'' []) p req = Inl e"
  shows "resolve_pattern c req i u ts = Inr (ts[i := mark_failed e (ts ! i)], [])"
  using assms by (simp add: resolve_pattern_def discover_def)

text \<open>
  With a pattern URL whose discovery fails and a direct URL, the resolution ends with the
  trace of the first marked and the second URL resolved.
\<close>

lemma discovery_failure_example:
  "rephrase (example_collaborators\<lparr>getMapResults := (\<lambda>u s r. Inl ''map failed'')\<rparr>)
     example_request (replace ''https://a.com/*'' ''/*'' []) = Inr None
   \<and> resolve_all (example_collaborators\<lparr>getMapResults := (\<lambda>u s r. Inl ''map failed'')\<rparr>)
       (example_request\<lparr>urls := [''https://a.com/*'', ''https://b.com'']\<rparr>) =
     Inr ([mark_failed ''map failed'' (new_trace ''https://a.com/*''),
           (new_trace ''https://b.com'')\<lparr>usedInCompletion := Some True\<rparr>],
          [[], [''https://b.com'']])"
proof -
  let ?c = "example_collaborators\<lparr>getMapResults := (\<lambda>u s r. Inl ''map failed'')\<rparr>"
  let ?req = "example_request\<lparr>urls := [''https://a.com/*'', ''https://b.com'']\<rparr>"
  let ?ts = "[new_trace ''https://a.com/*'', (new_trace ''https://b.com'')\<lparr>usedInCompletion := Some True\<rparr>]"
  have h1: "rephrase ?c ?req (replace ''https://a.com/*'' ''/*'' []) = Inr None"
    by (simp add: rephrase_def example_request_def)
  have h2: "getMapResults ?c (replace ''https://a.com/*'' ''/*'' []) None ?req = Inl ''map failed''"
    by simp
  have r: "resolve_pattern ?c ?req 0 ''https://a.com/*'' ?ts =
      Inr (?ts[0 := mark_failed ''map failed'' (?ts ! 0)], [])"
    using h1 h2 by (rule discovery_failure_is_caught)
  have s: "start_traces ?c ?req = ?ts"
    by (simp add: start_traces_def is_pattern_def resolve_direct_def example_request_def
        example_collaborators_def)
  have "resolve_all ?c ?req =
     Inr ([mark_failed ''map failed'' (new_trace ''https://a.com/*''),
           (new_trace ''https://b.com'')\<lparr>usedInCompletion := Some True\<rparr>],
          [[], [''https://b.com'']])"
  proof -
    have a: "\<not> allowExternalLinks ?req" by (simp add: example_request_def)
    have b: "\<not> isUrlBlocked example_collaborators ''https://b.com''"
      by (simp add: example_collaborators_def)
    have u: "enumerate 0 (urls ?req) = [(0, ''https://a.com/*''), (1, ''https://b.com'')]" by simp
    show ?thesis
      unfolding resolve_all_def s u
      by (simp add: r is_pattern_def resolve_direct_def a b)
  qed
  moreover have "rephrase ?c example_request (replace ''https://a.com/*'' ''/*'' []) = Inr None"
    by (simp add: rephrase_def example_request_def)
  ultimately show ?thesis by blast
qed

text \<open>
  Claim C3 says that every failure of the resolution of one input URL, the failure of
  the prompt rephrase among them, is caught for that URL: its trace is marked as an
  error and the other URLs and the request go on. \<open>generateBasicCompletion\<close> is
  awaited before the \<open>try\<close> block, so its rejection is not caught: for a pattern
  URL and a direct URL, with a prompt, the controller's promise is rejected, it gives no
  answer and no trace is marked.
\<close>

theorem rephrase_failure_rejects_request:
  "extractController
     (example_collaborators\<lparr>generateBasicCompletion := (\<lambda>p. Inl ''rephrase failed'')\<rparr>)
     (example_request\<lparr>urls := [''https://a.com/*'', ''https://b.com''],
                       prompt := Some ''prices''\<rparr>) =
   (Thrown ''rephrase failed'', [])"
  by (simp add: controller_defs)

section \<open>The ledger after a failed fetch\<close>

text \<open>
  Claim C6 says that a trace with \<open>usedInCompletion = true\<close> never has the status
  \<open>error\<close>. The \<open>catch\<close> of the fetch sets the status and the message and leaves
  \<open>usedInCompletion\<close> as it was: a direct URL that is not blocked and whose job wait
  fails ends, in the answer, with the status \<open>error\<close> and \<open>usedInCompletion = true\<close>.
\<close>

theorem fetch_failure_leaves_used_flag:
  "extractController
     (example_collaborators\<lparr>waitForJob := (\<lambda>j tmo. Inl ''Job wait '')\<rparr>) example_request =
   (Responded
      \<lparr>http_status = Some 200, success = True, response_error = None, data = Some ''{}'',
       response_warning = None,
       urlTrace =
         [\<lparr>url = ''https://a.com'', status = Error,
           timing = \<lparr>scrapedAt = True, completedAt = False\<rparr>,
           relevanceScore = None, usedInCompletion = Some True, warning = None,
           error = Some ''Job wait '', contentStats = None\<rparr>]\<rparr>,
    [AddScrapeJob 0 ''https://a.com'', WaitForJob 0 28000])"
  by (simp add: controller_defs effective_timeout_None)

section \<open>Release of a job\<close>



section \<open>Rounding\<close>

text \<open>Rounding to a double changes a positive value by at most \<open>double_eps\<close> of it.\<close>

lemma pow2_below_bounds: "0 < x \<Longrightarrow> 0 < pow2_below x \<and> pow2_below x \<le> x"
proof (induction x rule: pow2_below.induct)
  case (1 x)
  show ?case
  proof (cases "2 \<le> x")
    case True
    with 1 have ih: "0 < pow2_below (x / 2) \<and> pow2_below (x / 2) \<le> x / 2" by simp
    have "pow2_below x = 2 * pow2_below (x / 2)"
      using True 1(3) by (simp add: pow2_below.simps [of x])
    with ih show ?thesis by simp
  next
    case False
    show ?thesis
    proof (cases "x < 1")
      case True
      with 1 False have ih: "0 < pow2_below (2 * x) \<and> pow2_below (2 * x) \<le> 2 * x" by simp
      have "pow2_below x = pow2_below (2 * x) / 2"
        using True False 1(3) by (simp add: pow2_below.simps [of x])
      with ih show ?thesis by simp
    next
      case f: False
      have "pow2_below x = 1"
        using f False 1(3) by (simp add: pow2_below.simps [of x])
      with f show ?thesis by simp
    qed
  qed
qed


lemma round_half_even_error: "\<bar>of_int (round_half_even m) - m\<bar> \<le> 1 / 2"
proof -
  have "of_int \<lfloor>m\<rfloor> \<le> m" "m < of_int \<lfloor>m\<rfloor> + 1" by linarith+
  then show ?thesis
    by (auto simp: round_half_even_def Let_def abs_le_iff)
qed

lemma round_double_error:
  assumes "0 < x"
  shows "\<bar>round_double x - x\<bar> \<le> x * double_eps"
proof -
  define ulp where "ulp = pow2_below x / 2 ^ 52"
  have p: "0 < pow2_below x" "pow2_below x \<le> x" using pow2_below_bounds [OF assms] by simp_all
  have u: "0 < ulp" using p by (simp add: ulp_def)
  define k where "k = round_half_even (x / ulp)"
  have rd: "round_double x = of_int k * ulp"
    using assms by (simp add: round_double_def ulp_def k_def Let_def)
  have "\<bar>of_int k - x / ulp\<bar> \<le> 1 / 2" unfolding k_def by (rule round_half_even_error)
  then have "\<bar>of_int k - x / ulp\<bar> * ulp \<le> 1 / 2 * ulp"
    using u by (simp add: mult_right_mono)
  moreover have "\<bar>of_int k - x / ulp\<bar> * ulp = \<bar>of_int k * ulp - x\<bar>"
  proof -
    have "\<bar>of_int k - x / ulp\<bar> * ulp = \<bar>(of_int k - x / ulp) * ulp\<bar>"
      using u by (simp add: abs_mult)
    also have "(of_int k - x / ulp) * ulp = of_int k * ulp - x"
      using u by (simp add: algebra_simps)
    finally show ?thesis .
  qed
  ultimately have "\<bar>round_double x - x\<bar> \<le> ulp / 2" by (simp add: rd)
  also have "ulp / 2 = pow2_below x * double_eps" by (simp add: ulp_def double_eps_def)
  also have "\<dots> \<le> x * double_eps"
    using p by (simp add: mult_right_mono double_eps_def)
  finally show ?thesis .
qed


lemma round_double_upper: "0 < x \<Longrightarrow> round_double x \<le> x + x * double_eps"
  using round_double_error [of x] by linarith

lemma round_double_lower: "0 < x \<Longrightarrow> x - x * double_eps \<le> round_double x"
  using round_double_error [of x] by linarith

lemma double_eps_bounds: "0 < double_eps" "double_eps * 2 ^ 53 = 1"
  by (simp_all add: double_eps_def)

lemma double_0_7_value: "double_0_7 = 7 / 10 - 2 / 5 * double_eps"
  unfolding double_0_7_def double_eps_def by code_simp


section \<open>The timeout of a fetch\<close>

lemma floor_0_7: "\<lfloor>round_double double_0_7\<rfloor> = 0"
  by code_simp

lemma floor_45000: "\<lfloor>round_double (45000 * double_0_7)\<rfloor> = 31499"
  by code_simp

lemma effective_timeout_0: "effective_timeout (Some 0) = 28000"
  by (simp add: effective_timeout_def floor_40000)

lemma effective_timeout_1: "effective_timeout (Some 1) = 30000"
  by (simp add: effective_timeout_def floor_0_7)

lemma timeout_product_bounds:
  fixes t :: nat
  assumes "2 \<le> t" and "t < 2 ^ 50"
  shows "1 \<le> \<lfloor>round_double (of_nat t * double_0_7)\<rfloor>"
    and "\<lfloor>round_double (of_nat t * double_0_7)\<rfloor> = int (7 * t div 10)
       \<or> \<lfloor>round_double (of_nat t * double_0_7)\<rfloor> + 1 = int (7 * t div 10)"
proof -
  define v where "v = \<lfloor>round_double (of_nat t * double_0_7)\<rfloor>"
  define T :: rat where "T = of_nat t"
  define te where "te = T * double_eps"
  define tee where "tee = te * double_eps"
  define x where "x = of_nat t * double_0_7"
  define r where "r = round_double x"
  define q where "q = 7 * t div 10"
  define m where "m = 7 * t mod 10"
  have T2: "2 \<le> T" using assms(1) by (simp add: T_def)
  have "T < 2 ^ 50"
  proof -
    have "(of_nat t :: rat) < of_nat (2 ^ 50)" using assms(2) by (simp only: of_nat_less_iff)
    then show ?thesis by (simp add: T_def)
  qed
  then have "T * double_eps < 2 ^ 50 * double_eps"
    using double_eps_bounds(1) by (simp only: mult_strict_right_mono)
  also have "(2 ^ 50 :: rat) * double_eps = 1 / 8" by (simp add: double_eps_def)
  finally have te8: "te < 1 / 8" by (simp add: te_def)
  have te0: "0 < te" using T2 double_eps_bounds(1) by (simp add: te_def)
  have e1: "double_eps < 1" by (simp add: double_eps_def)
  have tee0: "0 \<le> tee" using te0 double_eps_bounds(1) by (simp add: tee_def)
  have "te * double_eps \<le> te * 1" using te0 e1 by (simp only: mult_left_mono less_imp_le)
  then have tee1: "tee \<le> te" by (simp add: tee_def)
  have x_eq: "x = 7 / 10 * T - 2 / 5 * te"
    by (simp add: x_def double_0_7_value T_def te_def algebra_simps)
  have xe_eq: "x * double_eps = 7 / 10 * te - 2 / 5 * tee"
    by (simp add: x_eq te_def tee_def algebra_simps)
  have x0: "0 < x" using x_eq T2 te8 by linarith
  have up: "r \<le> x + x * double_eps" unfolding r_def using x0 by (rule round_double_upper)
  have lo: "x - x * double_eps \<le> r" unfolding r_def using x0 by (rule round_double_lower)
  have "7 * t = 10 * q + m" by (simp add: q_def m_def)
  then have "(of_nat (7 * t) :: rat) = of_nat (10 * q + m)" by (simp only:)
  then have eq: "7 * T = 10 * of_nat q + of_nat m" by (simp add: T_def)
  have "m \<le> 9" unfolding m_def by arith
  then have "(of_nat m :: rat) \<le> of_nat 9" by (simp only: of_nat_le_iff)
  then have m9: "(of_nat m :: rat) \<le> 9" by simp
  have m0: "(0::rat) \<le> of_nat m" by simp
  have r_up: "r < of_nat q + 1" using up x_eq xe_eq eq m9 te8 te0 tee0 by linarith
  have r_lo: "of_nat q - 1 < r" using lo x_eq xe_eq eq m0 te8 te0 tee0 by linarith
  have r1: "1 \<le> r" using lo x_eq xe_eq T2 te8 te0 tee1 tee0 by linarith
  have v: "v = \<lfloor>r\<rfloor>" by (simp add: v_def r_def x_def)
  have "1 \<le> v" using r1 by (simp add: v le_floor_iff)
  then show "1 \<le> \<lfloor>round_double (of_nat t * double_0_7)\<rfloor>" by (simp only: v_def)
  have "r < of_int (int q + 1)" using r_up by simp
  then have a: "\<lfloor>r\<rfloor> < int q + 1" by (simp only: floor_less_iff)
  have "of_int (int q - 1) \<le> r" using r_lo by simp
  then have b: "int q - 1 \<le> \<lfloor>r\<rfloor>" by (simp only: le_floor_iff)
  from a b have "v = int (7 * t div 10) \<or> v + 1 = int (7 * t div 10)"
    unfolding v q_def [symmetric] by linarith
  then show "\<lfloor>round_double (of_nat t * double_0_7)\<rfloor> = int (7 * t div 10)
       \<or> \<lfloor>round_double (of_nat t * double_0_7)\<rfloor> + 1 = int (7 * t div 10)"
    by (simp only: v_def)
qed

text \<open>
  Claim C7, as the code has it. A missing or zero request timeout is replaced by 40000
  before the scaling, so the effective timeout is then 28000; the default 30000 is taken
  when the floor of the product is zero, which for an integer timeout is the timeout 1.
  For a timeout \<open>t\<close> from 2 on (and below \<open>2 ^ 50\<close>) the effective timeout is the
  floor of the double product \<open>t * 0.7\<close>, which is \<open>7 * t div 10\<close> or one less.
\<close>

theorem effective_timeout_scaled:
  assumes "2 \<le> t" and "t < 2 ^ 50"
  shows "effective_timeout (Some t) = nat \<lfloor>round_double (of_nat t * double_0_7)\<rfloor>
       \<and> (effective_timeout (Some t) = 7 * t div 10
            \<or> effective_timeout (Some t) + 1 = 7 * t div 10)
       \<and> effective_timeout None = 28000
       \<and> effective_timeout (Some 0) = 28000
       \<and> effective_timeout (Some 1) = 30000"
proof -
  define v where "v = \<lfloor>round_double (of_nat t * double_0_7)\<rfloor>"
  have v1: "1 \<le> v" and v2: "v = int (7 * t div 10) \<or> v + 1 = int (7 * t div 10)"
    using timeout_product_bounds [OF assms] by (simp_all only: v_def)
  have "effective_timeout (Some t) = (if v = 0 then 30000 else nat v)"
    using assms(1) by (simp add: effective_timeout_def Let_def v_def)
  with v1 have e: "effective_timeout (Some t) = nat v" by simp
  have "nat v = 7 * t div 10 \<or> nat v + 1 = 7 * t div 10"
    using v1 v2 by linarith
  with e show ?thesis
    unfolding v_def
    by (simp only: effective_timeout_None effective_timeout_0 effective_timeout_1 simp_thms)
qed

text \<open>For 45000 ms the double product is 31499.999999999996, and the timeout 31499.\<close>

theorem effective_timeout_scaled_witness:
  "(2::nat) \<le> 45000 \<and> (45000::nat) < 2 ^ 50
   \<and> effective_timeout (Some 45000) = 31499
   \<and> effective_timeout (Some 45000) + 1 = 7 * 45000 div 10"
proof -
  have h1: "(2::nat) \<le> 45000" by simp
  have h2: "(45000::nat) < 2 ^ 50" by simp
  have "nat \<lfloor>round_double (of_nat 45000 * double_0_7)\<rfloor> = 31499"
    by (simp add: floor_45000)
  with effective_timeout_scaled [OF h1 h2] show ?thesis by simp
qed

text \<open>The claim as stated fails: without a request timeout, or with 0, the result is not 30000.\<close>

theorem missing_timeout_is_not_default:
  "effective_timeout None \<noteq> 30000 \<and> effective_timeout (Some 0) \<noteq> 30000"
  by (simp add: effective_timeout_def floor_40000)

section \<open>Token attribution\<close>















text \<open>When all documents are empty the quotient is \<open>0 / 0\<close>.\<close>

lemma token_share_no_content: "token_share n 0 0 = NaN"
  by (simp add: token_share_def js_div_def)





section \<open>The relevance filter\<close>

text \<open>
  The URLs a stage accepts are the scored URLs above the threshold that are the URL of a
  candidate and are not blocked, in the order of the scores.
\<close>

lemma find_SomeD: "find p xs = Some d \<Longrightarrow> d \<in> set xs \<and> p d"
  by (induction xs) (auto split: if_splits)

lemma resolved_urls:
  "map MapDocument.url
     (filter (\<lambda>x. \<not> blocked (MapDocument.url x))
        (List.map_filter (\<lambda>x. find (\<lambda>l. MapDocument.url l = link x) ml) xs)) =
   filter (\<lambda>u. u \<in> set (map MapDocument.url ml) \<and> \<not> blocked u) (map link xs)"
proof (induction xs)
  case Nil
  show ?case by (simp add: List.map_filter_simps)
next
  case (Cons x xs)
  show ?case
  proof (cases "find (\<lambda>l. MapDocument.url l = link x) ml")
    case None
    then have "link x \<notin> set (map MapDocument.url ml)"
      by (auto simp: find_None_iff)
    with None Cons show ?thesis by (simp add: List.map_filter_simps)
  next
    case (Some d)
    then have d: "d \<in> set ml" "MapDocument.url d = link x"
      by (auto dest!: find_SomeD)
    then have "MapDocument.url d \<in> MapDocument.url ` set ml" by (intro imageI)
    with d have "MapDocument.url d = link x" "link x \<in> set (map MapDocument.url ml)"
      by simp_all
    with Some Cons show ?thesis by (simp add: List.map_filter_simps)
  qed
qed

lemma filterAndProcessLinks_urls:
  "map MapDocument.url (filterAndProcessLinks c ml las th) =
   accepted_above (isUrlBlocked c) (map MapDocument.url ml) las th"
  by (simp add: filterAndProcessLinks_def accepted_above_def resolved_urls)

lemma cascade_urls:
  "map MapDocument.url (fst (cascade c ml las)) =
   amended_cascade (isUrlBlocked c) (map MapDocument.url ml) las"
proof -
  have e: "\<And>th. filterAndProcessLinks c ml las th = [] \<longleftrightarrow>
             accepted_above (isUrlBlocked c) (map MapDocument.url ml) las th = []"
    using filterAndProcessLinks_urls [of c ml las] by (metis map_is_Nil_conv)
  show ?thesis
    by (simp add: cascade_def amended_cascade_def Let_def MIN_REQUIRED_LINKS_def
        INITIAL_SCORE_THRESHOLD_def FALLBACK_SCORE_THRESHOLD_def e [symmetric]
        filterAndProcessLinks_urls [symmetric] resolved_urls [symmetric]
        del: set_map)
qed

lemma top_scored:
  "\<forall>x\<in>set (take 1 (sort_by_score las)). \<forall>y\<in>set las. score y \<le> score x"
proof (cases "sort_by_score las")
  case Nil
  then show ?thesis by simp
next
  case (Cons x xs)
  have "sorted (map (\<lambda>x. - score x) (sort_by_score las))"
    unfolding sort_by_score_def by (rule sorted_sort_key)
  with Cons have "\<forall>y\<in>set (x # xs). score y \<le> score x" by auto
  moreover have "set (x # xs) = set las"
    using Cons [symmetric] by (simp add: sort_by_score_def)
  ultimately have "\<forall>y\<in>set las. score y \<le> score x" by (simp only:)
  then show ?thesis by (simp add: Cons)
qed


lemma rank_and_filter_kept:
  "snd (rank_and_filter c ts ml las) = take MAX_RANKING_LIMIT (fst (cascade c ml las))"
  by (simp add: rank_and_filter_def Let_def split: prod.splits)

lemmas cascade_eval =
  amended_cascade_def accepted_above_def sort_by_score_def candidate_def
  scored_link_def example_collaborators_def Let_def

text \<open>
  Claim C1, as the code has it. The accepted URLs are: the scored URLs of candidates that
  are not blocked and score above 0.75; if there is none, those that score above 0.5; if
  there is none, the first entry of the scores sorted by falling score, whose score is
  the highest, unless its URL is blocked or is no candidate's. For the
  scores a: 0.8, b: 0.6, c: 0.3 the result is a; for a: 0.6, b: 0.55 it is a and b; for
  a: 0.2, b: 0.1 it is a (nothing blocked).
\<close>

theorem cascade_policy:
  "map MapDocument.url (fst (cascade c mappedLinks linksAndScores)) =
     amended_cascade (isUrlBlocked c) (map MapDocument.url mappedLinks) linksAndScores
   \<and> (\<forall>x\<in>set (take 1 (sort_by_score linksAndScores)).
         \<forall>y\<in>set linksAndScores. score y \<le> score x)
   \<and> map MapDocument.url
        (fst (cascade example_collaborators (map candidate [''a'', ''b'', ''c''])
           [scored_link ''a'' (8 / 10), scored_link ''b'' (6 / 10), scored_link ''c'' (3 / 10)])) =
      [''a'']
   \<and> map MapDocument.url
        (fst (cascade example_collaborators (map candidate [''a'', ''b''])
           [scored_link ''a'' (6 / 10), scored_link ''b'' (55 / 100)])) =
      [''a'', ''b'']
   \<and> map MapDocument.url
        (fst (cascade example_collaborators (map candidate [''a'', ''b''])
           [scored_link ''a'' (2 / 10), scored_link ''b'' (1 / 10)])) =
      [''a'']"
proof -
  have e1: "map MapDocument.url
        (fst (cascade example_collaborators (map candidate [''a'', ''b'', ''c''])
           [scored_link ''a'' (8 / 10), scored_link ''b'' (6 / 10), scored_link ''c'' (3 / 10)])) =
      [''a'']"
    unfolding cascade_urls by (simp add: cascade_eval)
  have e2: "map MapDocument.url
        (fst (cascade example_collaborators (map candidate [''a'', ''b''])
           [scored_link ''a'' (6 / 10), scored_link ''b'' (55 / 100)])) =
      [''a'', ''b'']"
    unfolding cascade_urls by (simp add: cascade_eval)
  have e3: "map MapDocument.url
        (fst (cascade example_collaborators (map candidate [''a'', ''b''])
           [scored_link ''a'' (2 / 10), scored_link ''b'' (1 / 10)])) =
      [''a'']"
    unfolding cascade_urls by (simp add: cascade_eval)
  from cascade_urls top_scored e1 e2 e3 show ?thesis by blast
qed

text \<open>With a blocked and the scores a: 0.8, b: 0.6, the result is b.\<close>

theorem cascade_policy_witness:
  "map MapDocument.url
     (fst (cascade (example_collaborators\<lparr>isUrlBlocked := (\<lambda>u. u = ''a'')\<rparr>)
        (map candidate [''a'', ''b''])
        [scored_link ''a'' (8 / 10), scored_link ''b'' (6 / 10)])) = [''b'']
   \<and> score (scored_link ''b'' (6 / 10)) \<le> score (scored_link ''a'' (8 / 10))"
proof -
  let ?c = "example_collaborators\<lparr>isUrlBlocked := (\<lambda>u. u = ''a'')\<rparr>"
  let ?las = "[scored_link ''a'' (8 / 10), scored_link ''b'' (6 / 10)]"
  note th = cascade_policy [of ?c "map candidate [''a'', ''b'']" ?las]
  have "amended_cascade (isUrlBlocked ?c) (map MapDocument.url (map candidate [''a'', ''b''])) ?las
          = [''b'']"
    by (simp add: cascade_eval)
  with th have a: "map MapDocument.url (fst (cascade ?c (map candidate [''a'', ''b'']) ?las)) = [''b'']"
    by simp
  have t: "take 1 (sort_by_score ?las) = [scored_link ''a'' (8 / 10)]"
    by (simp add: cascade_eval)
  from th have "\<forall>x\<in>set (take 1 (sort_by_score ?las)). \<forall>y\<in>set ?las. score y \<le> score x"
    by blast
  then have b: "score (scored_link ''b'' (6 / 10)) \<le> score (scored_link ''a'' (8 / 10))"
    unfolding t by simp
  from a b show ?thesis by blast
qed

text \<open>
  The claim as stated fails: a blocked URL that scores above 0.75 is not accepted, and
  the cascade goes on to the next stage.
\<close>

theorem blocked_high_score_is_not_accepted:
  "map MapDocument.url
     (fst (cascade (example_collaborators\<lparr>isUrlBlocked := (\<lambda>u. u = ''a'')\<rparr>)
        (map candidate [''a'', ''b''])
        [scored_link ''a'' (8 / 10), scored_link ''b'' (6 / 10)])) = [''b'']
   \<and> claimed_cascade (\<lambda>u. u = ''a'')
        [scored_link ''a'' (8 / 10), scored_link ''b'' (6 / 10)] = [''a'']"
  unfolding cascade_urls by (simp add: cascade_eval claimed_cascade_def)

text \<open>
  Claim C5, as the code has it: the filter's output is not empty when there are scores
  and the highest-scoring entry is the URL of a candidate and is not blocked.
\<close>

theorem filter_keeps_top_candidate:
  assumes "linksAndScores \<noteq> []"
    and "link (hd (sort_by_score linksAndScores)) \<in> set (map MapDocument.url mappedLinks)"
    and "\<not> isUrlBlocked c (link (hd (sort_by_score linksAndScores)))"
  shows "snd (rank_and_filter c ts mappedLinks linksAndScores) \<noteq> []"
proof -
  have "length (sort_by_score linksAndScores) = length linksAndScores"
    by (simp add: sort_by_score_def)
  with assms(1) obtain x xs where s: "sort_by_score linksAndScores = x # xs"
    by (cases "sort_by_score linksAndScores") auto
  have "amended_cascade (isUrlBlocked c) (map MapDocument.url mappedLinks) linksAndScores \<noteq> []"
    using assms(2,3) by (simp add: amended_cascade_def Let_def s del: set_map)
  then have "fst (cascade c mappedLinks linksAndScores) \<noteq> []"
    using cascade_urls [of c mappedLinks linksAndScores] by (metis map_is_Nil_conv)
  then show ?thesis by (simp add: rank_and_filter_kept MAX_RANKING_LIMIT_def)
qed

text \<open>Scores a: 0.2, b: 0.1, nothing blocked.\<close>

theorem filter_keeps_top_candidate_witness:
  "[scored_link ''a'' (2 / 10), scored_link ''b'' (1 / 10)] \<noteq> []
   \<and> link (hd (sort_by_score [scored_link ''a'' (2 / 10), scored_link ''b'' (1 / 10)]))
       \<in> set (map MapDocument.url (map candidate [''a'', ''b'']))
   \<and> \<not> isUrlBlocked example_collaborators
         (link (hd (sort_by_score [scored_link ''a'' (2 / 10), scored_link ''b'' (1 / 10)])))
   \<and> snd (rank_and_filter example_collaborators [] (map candidate [''a'', ''b''])
            [scored_link ''a'' (2 / 10), scored_link ''b'' (1 / 10)]) \<noteq> []"
proof -
  let ?las = "[scored_link ''a'' (2 / 10), scored_link ''b'' (1 / 10)]"
  have h1: "?las \<noteq> []" by simp
  have h2: "link (hd (sort_by_score ?las)) \<in> set (map MapDocument.url (map candidate [''a'', ''b'']))"
    by (simp add: cascade_eval)
  have h3: "\<not> isUrlBlocked example_collaborators (link (hd (sort_by_score ?las)))"
    by (simp add: cascade_eval)
  from filter_keeps_top_candidate [OF h1 h2 h3, of "[]"] h1 h2 h3 show ?thesis by blast
qed

text \<open>
  The claim as stated fails: with two candidates a: 0.2 and b: 0.1 and a blocked, the
  fallback takes a, drops it as blocked, and nothing is left.
\<close>

theorem blocked_top_candidate_leaves_nothing:
  "snd (rank_and_filter (example_collaborators\<lparr>isUrlBlocked := (\<lambda>u. u = ''a'')\<rparr>) []
          (map candidate [''a'', ''b''])
          [scored_link ''a'' (2 / 10), scored_link ''b'' (1 / 10)]) = []"
proof -
  have "map MapDocument.url
          (fst (cascade (example_collaborators\<lparr>isUrlBlocked := (\<lambda>u. u = ''a'')\<rparr>)
             (map candidate [''a'', ''b''])
             [scored_link ''a'' (2 / 10), scored_link ''b'' (1 / 10)])) = []"
    unfolding cascade_urls by (simp add: cascade_eval)
  then show ?thesis by (simp add: rank_and_filter_kept)
qed

section \<open>When the relevance filter runs\<close>

text \<open>Tracking the discovered URLs only appends traces, which carry no score.\<close>

lemma track_discovered_appends:
  "\<exists>new. track_discovered ts us = ts @ new
         \<and> list_all (\<lambda>t. relevanceScore t = None \<and> status t = Mapped) new"
proof (induction us arbitrary: ts)
  case Nil
  show ?case by simp
next
  case (Cons u us)
  show ?case
  proof (cases "list_ex (\<lambda>t. URLTrace.url t = u) ts")
    case True
    with Cons [of ts] show ?thesis by simp
  next
    case False
    from Cons [of "ts @ [discovered_trace u]"] obtain new where
      "track_discovered (ts @ [discovered_trace u]) us = (ts @ [discovered_trace u]) @ new"
      "list_all (\<lambda>t. relevanceScore t = None \<and> status t = Mapped) new"
      by blast
    then have "track_discovered ts (u # us) = ts @ (discovered_trace u # new)
        \<and> list_all (\<lambda>t. relevanceScore t = None \<and> status t = Mapped) (discovered_trace u # new)"
      using False by (simp add: discovered_trace_def new_trace_def)
    then show ?thesis by blast
  qed
qed

text \<open>
  Claim C9, as the code has it. After a successful discovery, the relevance filter
  (scoring, cascade, trace updates, cut to ten) runs exactly when the request has a
  non-empty prompt, whatever the number of candidates. Without one, the URL resolves to
  all its candidates and the ledger only grows by the traces of the discovered URLs,
  none of them scored.
\<close>

theorem relevance_filter_gate:
  assumes "getMapResults c (replace u ''/*'' []) rp req = Inr mr"
    and "removeDuplicateUrls c (map MapDocument.url (mapResults mr) @ links mr) = Inr uniqueUrls"
  shows
    "(\<not> truthy (prompt req) \<longrightarrow>
        discover c req u rp ts =
          (track_discovered ts uniqueUrls,
           Inr (map MapDocument.url
                  (merge_links (mapResults mr) uniqueUrls (replace u ''/*'' []))))
        \<and> (\<exists>new. fst (discover c req u rp ts) = ts @ new
                 \<and> list_all (\<lambda>t. relevanceScore t = None \<and> status t = Mapped) new))
   \<and> (\<forall>linksAndScores.
        truthy (prompt req)
        \<and> performRanking c
             (map rerank_text (merge_links (mapResults mr) uniqueUrls (replace u ''/*'' [])))
             (map MapDocument.url (merge_links (mapResults mr) uniqueUrls (replace u ''/*'' [])))
             (searchQuery (prompt req) (allowExternalLinks req)
                (replace (replace u ''/*'' []) ''www.'' [])) = Inr linksAndScores \<longrightarrow>
        discover c req u rp ts =
          (fst (rank_and_filter c (track_discovered ts uniqueUrls)
                  (merge_links (mapResults mr) uniqueUrls (replace u ''/*'' [])) linksAndScores),
           Inr (map MapDocument.url
                  (snd (rank_and_filter c (track_discovered ts uniqueUrls)
                          (merge_links (mapResults mr) uniqueUrls (replace u ''/*'' []))
                          linksAndScores)))))"
proof (intro conjI impI allI)
  assume p: "\<not> truthy (prompt req)"
  then show d: "discover c req u rp ts =
          (track_discovered ts uniqueUrls,
           Inr (map MapDocument.url
                  (merge_links (mapResults mr) uniqueUrls (replace u ''/*'' []))))"
    using assms by (simp add: discover_def Let_def)
  show "\<exists>new. fst (discover c req u rp ts) = ts @ new
           \<and> list_all (\<lambda>t. relevanceScore t = None \<and> status t = Mapped) new"
    unfolding d using track_discovered_appends [of ts uniqueUrls] by simp
next
  fix linksAndScores
  assume "truthy (prompt req)
        \<and> performRanking c
             (map rerank_text (merge_links (mapResults mr) uniqueUrls (replace u ''/*'' [])))
             (map MapDocument.url (merge_links (mapResults mr) uniqueUrls (replace u ''/*'' [])))
             (searchQuery (prompt req) (allowExternalLinks req)
                (replace (replace u ''/*'' []) ''www.'' [])) = Inr linksAndScores"
  then show "discover c req u rp ts =
          (fst (rank_and_filter c (track_discovered ts uniqueUrls)
                  (merge_links (mapResults mr) uniqueUrls (replace u ''/*'' [])) linksAndScores),
           Inr (map MapDocument.url
                  (snd (rank_and_filter c (track_discovered ts uniqueUrls)
                          (merge_links (mapResults mr) uniqueUrls (replace u ''/*'' []))
                          linksAndScores))))"
    using assms by (simp add: discover_def Let_def split: prod.splits)
qed

text \<open>The definitions an evaluation of the filter unfolds.\<close>

lemmas filter_eval =
  rank_and_filter_def cascade_def filterAndProcessLinks_def score_trace_def sort_by_score_def
  candidate_def scored_link_def List.map_filter_def Let_def
  MAX_RANKING_LIMIT_def MIN_REQUIRED_LINKS_def INITIAL_SCORE_THRESHOLD_def
  FALLBACK_SCORE_THRESHOLD_def

text \<open>A discovery with one candidate and no prompt.\<close>

theorem relevance_filter_gate_witness:
  "getMapResults
     (example_collaborators
        \<lparr>getMapResults := (\<lambda>u s r. Inr \<lparr>mapResults = [candidate ''https://a.com/x''], links = []\<rparr>)\<rparr>)
     (replace ''https://a.com/*'' ''/*'' []) None example_request =
     Inr \<lparr>mapResults = [candidate ''https://a.com/x''], links = []\<rparr>
   \<and> removeDuplicateUrls
       (example_collaborators
          \<lparr>getMapResults := (\<lambda>u s r. Inr \<lparr>mapResults = [candidate ''https://a.com/x''], links = []\<rparr>)\<rparr>)
       [''https://a.com/x''] = Inr [''https://a.com/x'']
   \<and> \<not> truthy (prompt example_request)
   \<and> discover
       (example_collaborators
          \<lparr>getMapResults := (\<lambda>u s r. Inr \<lparr>mapResults = [candidate ''https://a.com/x''], links = []\<rparr>)\<rparr>)
       example_request ''https://a.com/*'' None [new_trace ''https://a.com/*''] =
     ([new_trace ''https://a.com/*'', discovered_trace ''https://a.com/x''],
      Inr [''https://a.com/x''])"
proof -
  let ?mr = "\<lparr>mapResults = [candidate ''https://a.com/x''], links = []\<rparr>"
  let ?c = "example_collaborators\<lparr>getMapResults := (\<lambda>u s r. Inr ?mr)\<rparr>"
  have h1: "getMapResults ?c (replace ''https://a.com/*'' ''/*'' []) None example_request = Inr ?mr"
    by simp
  have h2: "removeDuplicateUrls ?c (map MapDocument.url (mapResults ?mr) @ links ?mr)
              = Inr [''https://a.com/x'']"
    by (simp add: example_collaborators_def candidate_def)
  have h3: "\<not> truthy (prompt example_request)" by (simp add: example_request_def)
  have t: "track_discovered [new_trace ''https://a.com/*''] [''https://a.com/x'']
             = [new_trace ''https://a.com/*'', discovered_trace ''https://a.com/x'']"
    by (simp add: new_trace_def)
  have m: "map MapDocument.url (merge_links (mapResults ?mr) [''https://a.com/x'']
             (replace ''https://a.com/*'' ''/*'' [])) = [''https://a.com/x'']"
    by (simp add: merge_links_def candidate_def MAX_EXTRACT_LIMIT_def)
  from relevance_filter_gate [OF h1 h2, of "[new_trace ''https://a.com/*'']"] h3
  have "discover ?c example_request ''https://a.com/*'' None [new_trace ''https://a.com/*''] =
     ([new_trace ''https://a.com/*'', discovered_trace ''https://a.com/x''],
      Inr [''https://a.com/x''])"
    unfolding t m by blast
  with h1 h2 h3 show ?thesis by (simp add: candidate_def)
qed

text \<open>
  The claim as stated fails: with a prompt and a single candidate, the candidate is
  scored and filtered all the same: its trace gets the relevance score.
\<close>

theorem single_candidate_is_scored:
  "length (merge_links [candidate ''https://a.com/x''] [''https://a.com/x''] ''https://a.com'') = 1
   \<and> discover
       (example_collaborators
          \<lparr>getMapResults := (\<lambda>u s r. Inr \<lparr>mapResults = [candidate ''https://a.com/x''], links = []\<rparr>),
           performRanking := (\<lambda>ctx us q. Inr (map (\<lambda>u. scored_link u (9 / 10)) us))\<rparr>)
       (example_request\<lparr>urls := [''https://a.com/*''], prompt := Some ''prices''\<rparr>)
       ''https://a.com/*'' (Some ''prices'') [new_trace ''https://a.com/*''] =
     ([new_trace ''https://a.com/*'',
       (discovered_trace ''https://a.com/x'')
         \<lparr>relevanceScore := Some (9 / 10), usedInCompletion := Some True\<rparr>],
      Inr [''https://a.com/x''])"
  by (simp add: discover_def merge_links_def MAX_EXTRACT_LIMIT_def filter_eval
      example_collaborators_def example_request_def new_trace_def discovered_trace_def)


section \<open>Duplicates among the resolved URLs\<close>




end
